theory Spec2Isabelle
  imports Main "HOL-Library.Word"
begin

section \<open>Go values passed as \<open>interface{}\<close>\<close>

text \<open>
  The facade of package \<open>logx\<close> takes its arguments as \<open>interface{}\<close> and inspects
  their dynamic type (\<open>Field\<close>, a type switch). A dynamic value is modelled by what the
  type switch can observe of it:
  \<^item> \<open>GNil\<close> is the nil interface;
  \<^item> \<open>GObj n e s\<close> is a value of some named type, \<open>n\<close> its identity, \<open>e\<close> the result of
    its \<open>Error()\<close> method when the type implements \<open>error\<close>, \<open>s\<close> the result of its
    \<open>String()\<close> method when the type implements \<open>fmt.Stringer\<close>;
  \<^item> \<open>GDuration d\<close> is a \<open>time.Duration\<close>, a signed 64-bit count of nanoseconds;
  \<^item> \<open>GTime s\<close> is a \<open>time.Time\<close>, represented by the text \<open>s\<close> that its \<open>String()\<close>
    method (and so \<open>fmt.Sprint\<close>) returns;
  \<^item> \<open>GErrors\<close> and \<open>GStringers\<close> are slices of interface values: every element is
    nil (\<open>None\<close>) or a value whose method returns the given text;
  \<^item> the remaining constructors are plain values without methods.
\<close>

datatype gvalue =
    GNil
  | GString string
  | GInt int
  | GBool bool
  | GStrings "string list"
  | GObj nat "string option" "string option"
  | GDuration "64 word"
  | GTime string
  | GErrors "string option list"
  | GDurations "64 word list"
  | GTimes "string list"
  | GStringers "string option list"

text \<open>Calling a method on a nil interface value panics.\<close>

datatype panic = NilDereference

record LogField =
  Key :: string
  Value :: gvalue

subsection \<open>\<open>time.Duration.String\<close> of the Go standard library\<close>

text \<open>
  \<open>fmt.Sprint\<close> of a \<open>time.Duration\<close> is the result of its \<open>String\<close> method. The
  method belongs to the standard library, not to the repository; it is written out here
  as the library computes it, filling a buffer from its end: \<open>fmtInt\<close> and \<open>fmtFrac\<close>
  put their digits in front of what the buffer already holds.
\<close>

definition digit_char :: "nat \<Rightarrow> char" where
  "digit_char d = char_of (d + 48)"

function fmtInt_loop :: "string \<Rightarrow> nat \<Rightarrow> string" where
  "fmtInt_loop buf v = (if 0 < v then fmtInt_loop (digit_char (v mod 10) # buf) (v div 10) else buf)"
  by pat_completeness auto
termination
  by (relation "measure (\<lambda>(buf, v). v)") auto

definition fmtInt :: "string \<Rightarrow> nat \<Rightarrow> string" where
  "fmtInt buf v = (if v = 0 then CHR ''0'' # buf else fmtInt_loop buf v)"

fun fmtFrac_loop :: "nat \<Rightarrow> string \<Rightarrow> nat \<Rightarrow> bool \<Rightarrow> string \<times> nat \<times> bool" where
  "fmtFrac_loop 0 buf v prnt = (buf, v, prnt)"
| "fmtFrac_loop (Suc n) buf v prnt =
     (let digit = v mod 10;
          prnt' = (prnt \<or> digit \<noteq> 0);
          buf' = (if prnt' then digit_char digit # buf else buf)
      in fmtFrac_loop n buf' (v div 10) prnt')"

definition fmtFrac :: "string \<Rightarrow> nat \<Rightarrow> nat \<Rightarrow> string \<times> nat" where
  "fmtFrac buf v prec =
     (case fmtFrac_loop prec buf v False of
        (buf', v', prnt) \<Rightarrow> (if prnt then CHR ''.'' # buf' else buf', v'))"

definition Microsecond :: nat where "Microsecond = 1000"
definition Millisecond :: nat where "Millisecond = 1000 * Microsecond"
definition Second :: nat where "Second = 1000 * Millisecond"

definition Duration_format :: "nat \<Rightarrow> string" where
  "Duration_format u =
     (if u < Second then
        (if u = 0 then ''0s''
         else
           (let (prec, buf) =
                  (if u < Microsecond then (0, ''ns'')
                   else if u < Millisecond then (3, [char_of (0xC2::nat), char_of (0xB5::nat), CHR ''s''])
                   else (6, ''ms''))
            in case fmtFrac buf u prec of (buf', u') \<Rightarrow> fmtInt buf' u'))
      else
        (case fmtFrac ''s'' u 9 of
           (buf, secs) \<Rightarrow>
             (let buf1 = fmtInt buf (secs mod 60); mins = secs div 60
              in if 0 < mins then
                   (let buf2 = fmtInt (CHR ''m'' # buf1) (mins mod 60); hours = mins div 60
                    in if 0 < hours then fmtInt (CHR ''h'' # buf2) hours else buf2)
                 else buf1)))"

definition Duration_String :: "64 word \<Rightarrow> string" where
  "Duration_String d =
     (let neg = (sint d < 0);
          u = unat (if neg then - d else d);
          buf = Duration_format u
      in if neg then CHR ''-'' # buf else buf)"

subsection \<open>\<open>Field\<close> (named \<open>Field_logx\<close>: \<open>Field\<close> is the field of a relation in HOL)\<close>

fun errStrings :: "string option list \<Rightarrow> string list \<Rightarrow> panic + string list" where
  "errStrings [] errs = Inr errs"
| "errStrings (err # val) errs =
     (case err of None \<Rightarrow> Inl NilDereference | Some m \<Rightarrow> errStrings val (errs @ [m]))"

fun durStrings :: "64 word list \<Rightarrow> string list \<Rightarrow> string list" where
  "durStrings [] durs = durs"
| "durStrings (dur # val) durs = durStrings val (durs @ [Duration_String dur])"

fun timeStrings :: "string list \<Rightarrow> string list \<Rightarrow> string list" where
  "timeStrings [] tms = tms"
| "timeStrings (t # val) tms = timeStrings val (tms @ [t])"

text \<open>
  The two interfaces that the type switch tests: \<open>Error_method v\<close> is the result of
  \<open>v.Error()\<close> when the dynamic type of \<open>v\<close> implements \<open>error\<close>, and
  \<open>String_method v\<close> the result of \<open>v.String()\<close> when it implements \<open>fmt.Stringer\<close>,
  as \<open>time.Duration\<close> and \<open>time.Time\<close> do.
\<close>

definition Error_method :: "gvalue \<Rightarrow> string option" where
  "Error_method v = (case v of GObj n e s \<Rightarrow> e | _ \<Rightarrow> None)"

definition String_method :: "gvalue \<Rightarrow> string option" where
  "String_method v =
     (case v of
        GObj n e s \<Rightarrow> s
      | GDuration d \<Rightarrow> Some (Duration_String d)
      | GTime t \<Rightarrow> Some t
      | _ \<Rightarrow> None)"

text \<open>
  The cases of the type switch in the order of the source, the first that matches wins:
  \<open>error\<close>, \<open>[]error\<close>, \<open>time.Duration\<close>, \<open>[]time.Duration\<close>, \<open>[]time.Time\<close>,
  \<open>fmt.Stringer\<close>, \<open>[]fmt.Stringer\<close>, default.
\<close>

definition Field_logx :: "string \<Rightarrow> gvalue \<Rightarrow> panic + LogField" where
  "Field_logx key val =
     (case Error_method val of
        Some m \<Rightarrow> Inr \<lparr>Key = key, Value = GString m\<rparr>
      | None \<Rightarrow>
     (case val of
        GErrors es \<Rightarrow>
          (case errStrings es [] of
             Inl p \<Rightarrow> Inl p
           | Inr errs \<Rightarrow> Inr \<lparr>Key = key, Value = GStrings errs\<rparr>)
      | GDuration d \<Rightarrow> Inr \<lparr>Key = key, Value = GString (Duration_String d)\<rparr>
      | GDurations ds \<Rightarrow> Inr \<lparr>Key = key, Value = GStrings (durStrings ds [])\<rparr>
      | GTimes ts \<Rightarrow> Inr \<lparr>Key = key, Value = GStrings (timeStrings ts [])\<rparr>
      | _ \<Rightarrow>
     (case String_method val of
        Some s \<Rightarrow> Inr \<lparr>Key = key, Value = GString s\<rparr>
      | None \<Rightarrow>
     (case val of
        GStringers ss \<Rightarrow>
          (case errStrings ss [] of
             Inl p \<Rightarrow> Inl p
           | Inr strs \<Rightarrow> Inr \<lparr>Key = key, Value = GStrings strs\<rparr>)
      | _ \<Rightarrow> Inr \<lparr>Key = key, Value = val\<rparr>))))"

section \<open>The process-wide state of package \<open>logx\<close>\<close>

subsection \<open>Constants and configuration\<close>

definition callerDepth :: nat where "callerDepth = 4"

text \<open>
  Modelled from the spec: the file that declares the constants of the package is not under
  src/. The spec orders the thresholds Debug < Info < Error < Severe; the four levels are
  numbered in that order from 0. It names two encodings (json, the default, and plain),
  the configuration words \<open>debug|info|error|severe\<close>, \<open>console|file|volume\<close>,
  \<open>plain|json\<close> and \<open>size\<close>, and the \<open>caller\<close> field.
\<close>

definition DebugLevel :: "32 word" where "DebugLevel = 0"
definition InfoLevel :: "32 word" where "InfoLevel = 1"
definition ErrorLevel :: "32 word" where "ErrorLevel = 2"
definition SevereLevel :: "32 word" where "SevereLevel = 3"

definition jsonEncodingType :: "32 word" where "jsonEncodingType = 0"
definition plainEncodingType :: "32 word" where "plainEncodingType = 1"

definition levelDebug :: string where "levelDebug = ''debug''"
definition levelInfo :: string where "levelInfo = ''info''"
definition levelError :: string where "levelError = ''error''"
definition levelSevere :: string where "levelSevere = ''severe''"

definition fileMode :: string where "fileMode = ''file''"
definition volumeMode :: string where "volumeMode = ''volume''"
definition plainEncoding :: string where "plainEncoding = ''plain''"
definition sizeRotationRule :: string where "sizeRotationRule = ''size''"
definition callerKey :: string where "callerKey = ''caller''"

text \<open>
  Modelled from the spec: the declaration of \<open>LogConf\<close> is not under src/. The record has
  the options of the spec's configuration surface that \<open>SetUp\<close> reads.
\<close>

record LogConf =
  ServiceName :: string
  Mode :: string
  Encoding :: string
  TimeFormat :: string
  Path :: string
  Level :: string

record logOptions =
  gzipEnabled :: bool
  logStackCooldownMills :: int
  keepDays :: int
  maxBackups :: int
  maxSize :: int
  rotationRule :: string

datatype error = ErrLogPathNotSet | ErrLogServiceNameNotSet | IOError string

subsection \<open>Writers\<close>

text \<open>
  Modelled from the spec: the \<open>Writer\<close> interface, its implementations, the rotation
  rules and \<open>NewLogger\<close> are not under src/. The spec gives the interface the operations
  Alert, Info, Debug, Error, Severe, Slow, Stat, Stack and Close, and names the backends:
  the console writer, the rotating file writer and the no-op writer; \<open>customWriter n\<close>
  stands for a writer that the caller supplies to \<open>SetWriter\<close>.
\<close>

datatype RotateRule =
    SizeLimitRotateRule string string int int int bool
  | DailyRotateRule string string int bool

datatype WriteCloser = RotateLogger string RotateRule bool

datatype writer = consoleWriter | fileWriter WriteCloser | nopWriter | customWriter nat

datatype wmethod =
  Alert_m | Debug_m | Error_m | Info_m | Severe_m | Slow_m | Stack_m | Stat_m | Close_m

text \<open>One invocation of a method of a \<open>Writer\<close>; a method without a fields parameter has \<open>[]\<close>.\<close>

record call =
  cwriter :: writer
  cmethod :: wmethod
  cval :: gvalue
  cfields :: "LogField list"

subsection \<open>What the code takes from outside the repository\<close>

text \<open>
  The standard library (\<open>fmt.Sprint\<close>, \<open>fmt.Sprintf\<close>, \<open>fmt.Errorf\<close>,
  \<open>debug.Stack\<close>, \<open>path.Join\<close>), the runtime's view of the call stack behind
  \<open>getCaller\<close>, the host name, the file system behind \<open>NewLogger\<close>, the bytes that a
  backend writes for a record, and the constant \<open>backupFileDelimiter\<close> are parameters.
\<close>

record env =
  fmt_Sprint :: "gvalue list \<Rightarrow> string"
  fmt_Sprintf :: "string \<Rightarrow> gvalue list \<Rightarrow> string"
  fmt_Errorf :: "string \<Rightarrow> gvalue list \<Rightarrow> string"
  debug_Stack :: string
  getCaller :: "nat \<Rightarrow> string"
  sysx_Hostname :: string
  path_Join :: "string list \<Rightarrow> string"
  NewLogger_error :: "string \<Rightarrow> error option"
  backend_write :: "writer \<Rightarrow> wmethod \<Rightarrow> gvalue \<Rightarrow> LogField list \<Rightarrow> string"
  backend_close :: "writer \<Rightarrow> error option"
  backupFileDelimiter :: string

subsection \<open>The package variables\<close>

text \<open>
  The variables of the package, with \<open>writer\<close> the content of the atomic holder
  (\<open>None\<close> is nil) and \<open>setupOnce\<close> the done flag of the \<open>sync.Once\<close>. Three more
  components record what the program does to the outside: \<open>calls\<close>, the method
  invocations made on writers, in order; \<open>written\<close>, the bytes written by the backends;
  \<open>opened\<close>, the files opened by \<open>NewLogger\<close>. \<open>inits\<close> counts the runs of the function
  that \<open>SetUp\<close> passes to \<open>setupOnce.Do\<close>.
\<close>

record logx_state =
  timeFormat :: string
  logLevel :: "32 word"
  encoding :: "32 word"
  disableLog :: "32 word"
  disableStat :: "32 word"
  options :: logOptions
  writer :: "writer option"
  setupOnce :: bool
  calls :: "call list"
  written :: string
  opened :: "string list"
  inits :: nat

definition init_state :: logx_state where
  "init_state =
     \<lparr>timeFormat = ''2006-01-02T15:04:05.000Z07:00'',
      logLevel = 0,
      encoding = jsonEncodingType,
      disableLog = 0,
      disableStat = 0,
      options = \<lparr>gzipEnabled = False, logStackCooldownMills = 0, keepDays = 0,
                 maxBackups = 0, maxSize = 0, rotationRule = []\<rparr>,
      writer = None,
      setupOnce = False,
      calls = [],
      written = [],
      opened = [],
      inits = 0\<rparr>"

text \<open>
  Modelled from the spec: the atomic writer holder is not under src/. \<open>Store\<close> replaces the
  active writer, \<open>Load\<close> returns the current writer or nil, \<open>StoreIfNil\<close> installs a
  writer only if none is present and returns the writer that ends up active, \<open>Swap\<close>
  detaches the current writer and returns it.
\<close>

definition Load :: "writer option \<Rightarrow> writer option" where
  "Load h = h"

definition Store :: "writer option \<Rightarrow> writer option \<Rightarrow> writer option" where
  "Store h w = w"

definition StoreIfNil :: "writer option \<Rightarrow> writer \<Rightarrow> writer \<times> writer option" where
  "StoreIfNil h w = (case h of None \<Rightarrow> (w, Some w) | Some old \<Rightarrow> (old, h))"

definition Swap :: "writer option \<Rightarrow> writer option \<Rightarrow> writer option \<times> writer option" where
  "Swap h w = (h, w)"

text \<open>
  Modelled from the spec: every method of the no-op backend is a discard and its Close is
  a no-op; what the other backends write and whether their Close fails is left to the
  environment.
\<close>

definition Writer_write :: "env \<Rightarrow> writer \<Rightarrow> wmethod \<Rightarrow> gvalue \<Rightarrow> LogField list \<Rightarrow> string" where
  "Writer_write e w m v fs =
     (case w of nopWriter \<Rightarrow> [] | _ \<Rightarrow> backend_write e w m v fs)"

definition Writer_Close :: "env \<Rightarrow> writer \<Rightarrow> error option" where
  "Writer_Close e w = (case w of nopWriter \<Rightarrow> None | _ \<Rightarrow> backend_close e w)"

definition invoke :: "env \<Rightarrow> writer \<Rightarrow> wmethod \<Rightarrow> gvalue \<Rightarrow> LogField list \<Rightarrow> logx_state \<Rightarrow> logx_state" where
  "invoke e w m v fs st =
     st\<lparr>calls := calls st @ [\<lparr>cwriter = w, cmethod = m, cval = v, cfields = fs\<rparr>],
        written := written st @ Writer_write e w m v fs\<rparr>"


section \<open>The functions of the facade\<close>

subsection \<open>The level gate and the current writer\<close>

definition shallLog :: "32 word \<Rightarrow> logx_state \<Rightarrow> bool" where
  "shallLog level st = (logLevel st \<le> level)"

definition shallLogStat :: "logx_state \<Rightarrow> bool" where
  "shallLogStat st = (disableStat st = 0)"

text \<open>Modelled from the spec: the constructor of the console backend is not under src/.\<close>

definition newConsoleWriter :: writer where
  "newConsoleWriter = consoleWriter"

definition getWriter :: "logx_state \<Rightarrow> writer \<times> logx_state" where
  "getWriter st =
     (case Load (writer st) of
        Some w \<Rightarrow> (w, st)
      | None \<Rightarrow> (case StoreIfNil (writer st) newConsoleWriter of (w, h) \<Rightarrow> (w, st\<lparr>writer := h\<rparr>)))"

text \<open>
  \<open>getCaller\<close> returns a string, for which \<open>Field\<close> takes its default case and cannot
  panic (lemma \<open>Field_logx_GString\<close> below); \<open>projr\<close> takes the field out of the result.
\<close>

definition addCaller :: "env \<Rightarrow> LogField list \<Rightarrow> LogField list" where
  "addCaller e fs = fs @ [projr (Field_logx callerKey (GString (getCaller e callerDepth)))]"

text \<open>\<open>fmt.Sprintf("%s\n%s", msg, stack)\<close>: the two strings with a newline between them.\<close>

definition Sprintf_s_nl_s :: "string \<Rightarrow> string \<Rightarrow> string" where
  "Sprintf_s_nl_s msg stack = msg @ [CHR 0x0A] @ stack"

subsection \<open>The write functions\<close>

definition writeDebug :: "env \<Rightarrow> gvalue \<Rightarrow> LogField list \<Rightarrow> logx_state \<Rightarrow> logx_state" where
  "writeDebug e val fs st =
     (if shallLog DebugLevel st
      then (case getWriter st of (w, st') \<Rightarrow> invoke e w Debug_m val (addCaller e fs) st')
      else st)"

definition writeError :: "env \<Rightarrow> gvalue \<Rightarrow> LogField list \<Rightarrow> logx_state \<Rightarrow> logx_state" where
  "writeError e val fs st =
     (if shallLog ErrorLevel st
      then (case getWriter st of (w, st') \<Rightarrow> invoke e w Error_m val (addCaller e fs) st')
      else st)"

definition writeInfo :: "env \<Rightarrow> gvalue \<Rightarrow> LogField list \<Rightarrow> logx_state \<Rightarrow> logx_state" where
  "writeInfo e val fs st =
     (if shallLog InfoLevel st
      then (case getWriter st of (w, st') \<Rightarrow> invoke e w Info_m val (addCaller e fs) st')
      else st)"

definition writeSevere :: "env \<Rightarrow> string \<Rightarrow> logx_state \<Rightarrow> logx_state" where
  "writeSevere e msg st =
     (if shallLog SevereLevel st
      then (case getWriter st of
              (w, st') \<Rightarrow> invoke e w Severe_m (GString (Sprintf_s_nl_s msg (debug_Stack e))) [] st')
      else st)"

definition writeSlow :: "env \<Rightarrow> gvalue \<Rightarrow> LogField list \<Rightarrow> logx_state \<Rightarrow> logx_state" where
  "writeSlow e val fs st =
     (if shallLog ErrorLevel st
      then (case getWriter st of (w, st') \<Rightarrow> invoke e w Slow_m val (addCaller e fs) st')
      else st)"

definition writeStack :: "env \<Rightarrow> string \<Rightarrow> logx_state \<Rightarrow> logx_state" where
  "writeStack e msg st =
     (if shallLog ErrorLevel st
      then (case getWriter st of
              (w, st') \<Rightarrow> invoke e w Stack_m (GString (Sprintf_s_nl_s msg (debug_Stack e))) [] st')
      else st)"

definition writeStat :: "env \<Rightarrow> string \<Rightarrow> logx_state \<Rightarrow> logx_state" where
  "writeStat e msg st =
     (if shallLogStat st \<and> shallLog InfoLevel st
      then (case getWriter st of (w, st') \<Rightarrow> invoke e w Stat_m (GString msg) (addCaller e []) st')
      else st)"

subsection \<open>The public entry points\<close>

definition Alert :: "env \<Rightarrow> string \<Rightarrow> logx_state \<Rightarrow> logx_state" where
  "Alert e v st = (case getWriter st of (w, st') \<Rightarrow> invoke e w Alert_m (GString v) [] st')"

definition Close :: "env \<Rightarrow> logx_state \<Rightarrow> error option \<times> logx_state" where
  "Close e st =
     (case Swap (writer st) None of
        (Some w, h) \<Rightarrow>
          (Writer_Close e w,
           st\<lparr>writer := h,
              calls := calls st @ [\<lparr>cwriter = w, cmethod = Close_m, cval = GNil, cfields = []\<rparr>]\<rparr>)
      | (None, h) \<Rightarrow> (None, st\<lparr>writer := h\<rparr>))"

definition Debug :: "env \<Rightarrow> gvalue list \<Rightarrow> logx_state \<Rightarrow> logx_state" where
  "Debug e v = writeDebug e (GString (fmt_Sprint e v)) []"

definition Debugf :: "env \<Rightarrow> string \<Rightarrow> gvalue list \<Rightarrow> logx_state \<Rightarrow> logx_state" where
  "Debugf e format v = writeDebug e (GString (fmt_Sprintf e format v)) []"

definition Debugv :: "env \<Rightarrow> gvalue \<Rightarrow> logx_state \<Rightarrow> logx_state" where
  "Debugv e v = writeDebug e v []"

definition Debugw :: "env \<Rightarrow> string \<Rightarrow> LogField list \<Rightarrow> logx_state \<Rightarrow> logx_state" where
  "Debugw e msg fs = writeDebug e (GString msg) fs"

definition Disable :: "logx_state \<Rightarrow> logx_state" where
  "Disable st = (let st1 = st\<lparr>disableLog := 1\<rparr> in st1\<lparr>writer := Store (writer st1) (Some nopWriter)\<rparr>)"

definition DisableStat :: "logx_state \<Rightarrow> logx_state" where
  "DisableStat st = st\<lparr>disableStat := 1\<rparr>"

definition Error :: "env \<Rightarrow> gvalue list \<Rightarrow> logx_state \<Rightarrow> logx_state" where
  "Error e v = writeError e (GString (fmt_Sprint e v)) []"

definition Errorf :: "env \<Rightarrow> string \<Rightarrow> gvalue list \<Rightarrow> logx_state \<Rightarrow> logx_state" where
  "Errorf e format v = writeError e (GString (fmt_Errorf e format v)) []"

definition ErrorStack :: "env \<Rightarrow> gvalue list \<Rightarrow> logx_state \<Rightarrow> logx_state" where
  "ErrorStack e v = writeStack e (fmt_Sprint e v)"

definition ErrorStackf :: "env \<Rightarrow> string \<Rightarrow> gvalue list \<Rightarrow> logx_state \<Rightarrow> logx_state" where
  "ErrorStackf e format v = writeStack e (fmt_Sprintf e format v)"

definition Errorv :: "env \<Rightarrow> gvalue \<Rightarrow> logx_state \<Rightarrow> logx_state" where
  "Errorv e v = writeError e v []"

definition Errorw :: "env \<Rightarrow> string \<Rightarrow> LogField list \<Rightarrow> logx_state \<Rightarrow> logx_state" where
  "Errorw e msg fs = writeError e (GString msg) fs"

definition Info :: "env \<Rightarrow> gvalue list \<Rightarrow> logx_state \<Rightarrow> logx_state" where
  "Info e v = writeInfo e (GString (fmt_Sprint e v)) []"

definition Infof :: "env \<Rightarrow> string \<Rightarrow> gvalue list \<Rightarrow> logx_state \<Rightarrow> logx_state" where
  "Infof e format v = writeInfo e (GString (fmt_Sprintf e format v)) []"

definition Infov :: "env \<Rightarrow> gvalue \<Rightarrow> logx_state \<Rightarrow> logx_state" where
  "Infov e v = writeInfo e v []"

definition Infow :: "env \<Rightarrow> string \<Rightarrow> LogField list \<Rightarrow> logx_state \<Rightarrow> logx_state" where
  "Infow e msg fs = writeInfo e (GString msg) fs"

definition Reset :: "logx_state \<Rightarrow> writer option \<times> logx_state" where
  "Reset st = (case Swap (writer st) None of (old, h) \<Rightarrow> (old, st\<lparr>writer := h\<rparr>))"

definition SetLevel :: "32 word \<Rightarrow> logx_state \<Rightarrow> logx_state" where
  "SetLevel level st = st\<lparr>logLevel := level\<rparr>"

definition SetWriter :: "writer option \<Rightarrow> logx_state \<Rightarrow> logx_state" where
  "SetWriter w st = (if disableLog st = 0 then st\<lparr>writer := Store (writer st) w\<rparr> else st)"

definition Severe :: "env \<Rightarrow> gvalue list \<Rightarrow> logx_state \<Rightarrow> logx_state" where
  "Severe e v = writeSevere e (fmt_Sprint e v)"

definition Severef :: "env \<Rightarrow> string \<Rightarrow> gvalue list \<Rightarrow> logx_state \<Rightarrow> logx_state" where
  "Severef e format v = writeSevere e (fmt_Sprintf e format v)"

definition Slow :: "env \<Rightarrow> gvalue list \<Rightarrow> logx_state \<Rightarrow> logx_state" where
  "Slow e v = writeSlow e (GString (fmt_Sprint e v)) []"

definition Slowf :: "env \<Rightarrow> string \<Rightarrow> gvalue list \<Rightarrow> logx_state \<Rightarrow> logx_state" where
  "Slowf e format v = writeSlow e (GString (fmt_Sprintf e format v)) []"

definition Slowv :: "env \<Rightarrow> gvalue \<Rightarrow> logx_state \<Rightarrow> logx_state" where
  "Slowv e v = writeSlow e v []"

definition Sloww :: "env \<Rightarrow> string \<Rightarrow> LogField list \<Rightarrow> logx_state \<Rightarrow> logx_state" where
  "Sloww e msg fs = writeSlow e (GString msg) fs"

definition Stat :: "env \<Rightarrow> gvalue list \<Rightarrow> logx_state \<Rightarrow> logx_state" where
  "Stat e v = writeStat e (fmt_Sprint e v)"

definition Statf :: "env \<Rightarrow> string \<Rightarrow> gvalue list \<Rightarrow> logx_state \<Rightarrow> logx_state" where
  "Statf e format v = writeStat e (fmt_Sprintf e format v)"

subsection \<open>Setup\<close>

text \<open>
  Modelled from the spec: \<open>NewLogger\<close> is not under src/. It opens the file of the
  rotating logger; the environment says whether that fails.
\<close>

definition NewLogger ::
  "env \<Rightarrow> string \<Rightarrow> RotateRule \<Rightarrow> bool \<Rightarrow> logx_state \<Rightarrow> (error + WriteCloser) \<times> logx_state" where
  "NewLogger e filename rule compress st =
     (case NewLogger_error e filename of
        Some err \<Rightarrow> (Inl err, st)
      | None \<Rightarrow> (Inr (RotateLogger filename rule compress), st\<lparr>opened := opened st @ [filename]\<rparr>))"

definition createOutput :: "env \<Rightarrow> string \<Rightarrow> logx_state \<Rightarrow> (error + WriteCloser) \<times> logx_state" where
  "createOutput e pth st =
     (if length pth = 0 then (Inl ErrLogPathNotSet, st)
      else if rotationRule (options st) = sizeRotationRule then
        NewLogger e pth
          (SizeLimitRotateRule pth (backupFileDelimiter e) (keepDays (options st))
             (maxSize (options st)) (maxBackups (options st)) (gzipEnabled (options st)))
          (gzipEnabled (options st)) st
      else
        NewLogger e pth
          (DailyRotateRule pth (backupFileDelimiter e) (keepDays (options st))
             (gzipEnabled (options st)))
          (gzipEnabled (options st)) st)"

text \<open>
  Modelled from the spec: \<open>newFileWriter\<close>, the constructor of the rotating file backend,
  is not under src/. The spec says that file mode needs a path, that a missing path fails
  the setup call with a descriptive error, and that setup may open a file. The model
  creates one output under the configured path with \<open>createOutput\<close> (from the source),
  whose first check is the missing path; the one output stands for the files of the
  streams of the backend, whose names the spec does not give.
\<close>

definition newFileWriter :: "env \<Rightarrow> LogConf \<Rightarrow> logx_state \<Rightarrow> (error + writer) \<times> logx_state" where
  "newFileWriter e c st =
     (case createOutput e (Path c) st of
        (Inl err, st') \<Rightarrow> (Inl err, st')
      | (Inr out, st') \<Rightarrow> (Inr (fileWriter out), st'))"

definition setupLogLevel :: "LogConf \<Rightarrow> logx_state \<Rightarrow> logx_state" where
  "setupLogLevel c st =
     (if Level c = levelDebug then SetLevel DebugLevel st
      else if Level c = levelInfo then SetLevel InfoLevel st
      else if Level c = levelError then SetLevel ErrorLevel st
      else if Level c = levelSevere then SetLevel SevereLevel st
      else st)"

definition setupWithConsole :: "logx_state \<Rightarrow> logx_state" where
  "setupWithConsole st = SetWriter (Some newConsoleWriter) st"

definition setupWithFiles :: "env \<Rightarrow> LogConf \<Rightarrow> logx_state \<Rightarrow> error option \<times> logx_state" where
  "setupWithFiles e c st =
     (case newFileWriter e c st of
        (Inl err, st') \<Rightarrow> (Some err, st')
      | (Inr w, st') \<Rightarrow> (None, SetWriter (Some w) st'))"

definition setupWithVolume :: "env \<Rightarrow> LogConf \<Rightarrow> logx_state \<Rightarrow> error option \<times> logx_state" where
  "setupWithVolume e c st =
     (if length (ServiceName c) = 0 then (Some ErrLogServiceNameNotSet, st)
      else setupWithFiles e (c\<lparr>Path := path_Join e [Path c, ServiceName c, sysx_Hostname e]\<rparr>) st)"

text \<open>
  The function that \<open>SetUp\<close> passes to \<open>setupOnce.Do\<close>, with the value it leaves in
  \<open>err\<close>.
\<close>

definition setup_body :: "env \<Rightarrow> LogConf \<Rightarrow> logx_state \<Rightarrow> error option \<times> logx_state" where
  "setup_body e c st =
     (let st1 = setupLogLevel c (st\<lparr>inits := Suc (inits st)\<rparr>);
          st2 = (if 0 < length (TimeFormat c) then st1\<lparr>timeFormat := TimeFormat c\<rparr> else st1);
          st3 = (if Encoding c = plainEncoding then st2\<lparr>encoding := plainEncodingType\<rparr>
                 else st2\<lparr>encoding := jsonEncodingType\<rparr>)
      in if Mode c = fileMode then setupWithFiles e c st3
         else if Mode c = volumeMode then setupWithVolume e c st3
         else (None, setupWithConsole st3))"

text \<open>\<open>sync.Once\<close>: the function runs if the flag is not set, and the flag is set when it returns.\<close>

definition SetUp :: "env \<Rightarrow> LogConf \<Rightarrow> logx_state \<Rightarrow> error option \<times> logx_state" where
  "SetUp e c st =
     (if setupOnce st then (None, st)
      else (case setup_body e c st of (err, st') \<Rightarrow> (err, st'\<lparr>setupOnce := True\<rparr>)))"

subsection \<open>Sequences of calls\<close>

text \<open>
  The calls that a client of the package can make, one constructor for each function of
  the facade that reads or changes the state. \<open>Must\<close> and \<open>MustSetup\<close> are left
  out: on an error they end the process, so no call follows them; the option
  constructors \<open>WithCooldownMillis\<close> to \<open>WithRotation\<close> do not touch the state.
\<close>

datatype op =
    OpAlert string
  | OpClose
  | OpDebug "gvalue list"
  | OpDebugf string "gvalue list"
  | OpDebugv gvalue
  | OpDebugw string "LogField list"
  | OpDisable
  | OpDisableStat
  | OpError "gvalue list"
  | OpErrorf string "gvalue list"
  | OpErrorStack "gvalue list"
  | OpErrorStackf string "gvalue list"
  | OpErrorv gvalue
  | OpErrorw string "LogField list"
  | OpInfo "gvalue list"
  | OpInfof string "gvalue list"
  | OpInfov gvalue
  | OpInfow string "LogField list"
  | OpReset
  | OpSetLevel "32 word"
  | OpSetWriter "writer option"
  | OpSetUp LogConf
  | OpSevere "gvalue list"
  | OpSeveref string "gvalue list"
  | OpSlow "gvalue list"
  | OpSlowf string "gvalue list"
  | OpSlowv gvalue
  | OpSloww string "LogField list"
  | OpStat "gvalue list"
  | OpStatf string "gvalue list"

fun step :: "env \<Rightarrow> op \<Rightarrow> logx_state \<Rightarrow> logx_state" where
  "step e (OpAlert v) st = Alert e v st"
| "step e OpClose st = snd (Close e st)"
| "step e (OpDebug v) st = Debug e v st"
| "step e (OpDebugf format v) st = Debugf e format v st"
| "step e (OpDebugv v) st = Debugv e v st"
| "step e (OpDebugw msg fs) st = Debugw e msg fs st"
| "step e OpDisable st = Disable st"
| "step e OpDisableStat st = DisableStat st"
| "step e (OpError v) st = Error e v st"
| "step e (OpErrorf format v) st = Errorf e format v st"
| "step e (OpErrorStack v) st = ErrorStack e v st"
| "step e (OpErrorStackf format v) st = ErrorStackf e format v st"
| "step e (OpErrorv v) st = Errorv e v st"
| "step e (OpErrorw msg fs) st = Errorw e msg fs st"
| "step e (OpInfo v) st = Info e v st"
| "step e (OpInfof format v) st = Infof e format v st"
| "step e (OpInfov v) st = Infov e v st"
| "step e (OpInfow msg fs) st = Infow e msg fs st"
| "step e OpReset st = snd (Reset st)"
| "step e (OpSetLevel level) st = SetLevel level st"
| "step e (OpSetWriter w) st = SetWriter w st"
| "step e (OpSetUp c) st = snd (SetUp e c st)"
| "step e (OpSevere v) st = Severe e v st"
| "step e (OpSeveref format v) st = Severef e format v st"
| "step e (OpSlow v) st = Slow e v st"
| "step e (OpSlowf format v) st = Slowf e format v st"
| "step e (OpSlowv v) st = Slowv e v st"
| "step e (OpSloww msg fs) st = Sloww e msg fs st"
| "step e (OpStat v) st = Stat e v st"
| "step e (OpStatf format v) st = Statf e format v st"

text \<open>A sequence of calls, each with the environment it runs in.\<close>

fun run :: "(env \<times> op) list \<Rightarrow> logx_state \<Rightarrow> logx_state" where
  "run [] st = st"
| "run (x # xs) st = run xs (step (fst x) (snd x) st)"

text \<open>The calls that take the writer out of the holder.\<close>

fun detaches :: "op \<Rightarrow> bool" where
  "detaches OpReset = True"
| "detaches OpClose = True"
| "detaches _ = False"


subsection \<open>Notions used in the statements\<close>

text \<open>
  \<open>forwards st st' m\<close>: between \<open>st\<close> and \<open>st'\<close> exactly one method invocation was
  made, it was made on the writer that \<open>getWriter\<close> yields in \<open>st\<close> (the current
  backend), and the method was \<open>m\<close>.
\<close>

definition forwards :: "logx_state \<Rightarrow> logx_state \<Rightarrow> wmethod \<Rightarrow> bool" where
  "forwards st st' m =
     (length (calls st') = Suc (length (calls st)) \<and>
      take (length (calls st)) (calls st') = calls st \<and>
      cwriter (last (calls st')) = fst (getWriter st) \<and>
      cmethod (last (calls st')) = m)"

text \<open>
  \<open>gated_by pass f m st\<close>: the call \<open>f\<close> forwards a record with method \<open>m\<close> exactly when
  \<open>pass\<close> holds, and when it does not hold the call leaves the whole state as it was.
\<close>

definition gated_by :: "bool \<Rightarrow> (logx_state \<Rightarrow> logx_state) \<Rightarrow> wmethod \<Rightarrow> logx_state \<Rightarrow> bool" where
  "gated_by pass f m st = ((forwards st (f st) m = pass) \<and> (pass \<or> f st = st))"

text \<open>
  The invocation of method \<open>m\<close> on the current backend with value \<open>v\<close> and the fields
  \<open>fs\<close> followed by one caller field.
\<close>

definition with_caller :: "env \<Rightarrow> logx_state \<Rightarrow> wmethod \<Rightarrow> gvalue \<Rightarrow> LogField list \<Rightarrow> call" where
  "with_caller e st m v fs =
     \<lparr>cwriter = fst (getWriter st), cmethod = m, cval = v,
      cfields = fs @ [\<lparr>Key = callerKey, Value = GString (getCaller e callerDepth)\<rparr>]\<rparr>"


text \<open>The state in which \<open>SetUp\<close> selects the output mode: level, time format and encoding are set.\<close>

definition prepared :: "LogConf \<Rightarrow> logx_state \<Rightarrow> logx_state" where
  "prepared c st =
     (let st1 = setupLogLevel c (st\<lparr>inits := Suc (inits st)\<rparr>);
          st2 = (if 0 < length (TimeFormat c) then st1\<lparr>timeFormat := TimeFormat c\<rparr> else st1)
      in (if Encoding c = plainEncoding then st2\<lparr>encoding := plainEncodingType\<rparr>
                 else st2\<lparr>encoding := jsonEncodingType\<rparr>))"

text \<open>An environment for the examples.\<close>

fun join_slash :: "string list \<Rightarrow> string" where
  "join_slash [] = []"
| "join_slash [x] = x"
| "join_slash (x # y # ys) = x @ ''/'' @ join_slash (y # ys)"

fun sprint_strings :: "gvalue list \<Rightarrow> string" where
  "sprint_strings [] = []"
| "sprint_strings (GString s # vs) = s @ sprint_strings vs"
| "sprint_strings (v # vs) = sprint_strings vs"

definition env0 :: env where
  "env0 =
     \<lparr>fmt_Sprint = sprint_strings,
      fmt_Sprintf = (\<lambda>format v. format),
      fmt_Errorf = (\<lambda>format v. format),
      debug_Stack = ''goroutine 1 [running]:'',
      getCaller = (\<lambda>depth. ''svc/main.go:10''),
      sysx_Hostname = ''host1'',
      path_Join = join_slash,
      NewLogger_error = (\<lambda>filename. None),
      backend_write = (\<lambda>w m v fs. ''line''),
      backend_close = (\<lambda>w. None),
      backupFileDelimiter = ''-''\<rparr>"

section \<open>Properties\<close>

subsection \<open>Auxiliary facts: the current writer and forwarding\<close>

lemma init_simps:
  "logLevel init_state = 0" "writer init_state = None" "calls init_state = []"
  "disableLog init_state = 0" "disableStat init_state = 0" "setupOnce init_state = False"
  "written init_state = []" "opened init_state = []" "inits init_state = 0"
  by (simp_all add: init_state_def)

lemma Field_logx_GString: "Field_logx key (GString s) = Inr \<lparr>Key = key, Value = GString s\<rparr>"
  by (simp add: Field_logx_def Error_method_def String_method_def)

lemma addCaller_eq:
  "addCaller e fs = fs @ [\<lparr>Key = callerKey, Value = GString (getCaller e callerDepth)\<rparr>]"
  by (simp add: addCaller_def Field_logx_GString)

lemma getWriter_eq:
  "getWriter st =
     (case writer st of
        Some w \<Rightarrow> (w, st)
      | None \<Rightarrow> (consoleWriter, st\<lparr>writer := Some consoleWriter\<rparr>))"
  by (simp add: getWriter_def Load_def StoreIfNil_def newConsoleWriter_def split: option.splits)

lemma forward_frame:
  "(case getWriter st of (w, st') \<Rightarrow> invoke e w m v fs st') =
     st\<lparr>writer := Some (fst (getWriter st)),
        calls := calls st @ [\<lparr>cwriter = fst (getWriter st), cmethod = m, cval = v, cfields = fs\<rparr>],
        written := written st @ Writer_write e (fst (getWriter st)) m v fs\<rparr>"
  by (simp add: getWriter_eq invoke_def split: option.splits)

lemma calls_forward:
  "calls (case getWriter st of (w, st') \<Rightarrow> invoke e w m v fs st') =
     calls st @ [\<lparr>cwriter = fst (getWriter st), cmethod = m, cval = v, cfields = fs\<rparr>]"
  by (simp add: getWriter_eq invoke_def split: option.splits)

lemma forwards_forward:
  "forwards st (case getWriter st of (w, st') \<Rightarrow> invoke e w m v fs st') m"
  by (simp add: forwards_def calls_forward)

lemma not_forwards_same: "\<not> forwards st st m"
  by (simp add: forwards_def)

lemma gated_byI:
  "f st = (if pass then (case getWriter st of (w, st') \<Rightarrow> invoke e w m v fs st') else st)
   \<Longrightarrow> gated_by pass f m st"
  by (simp add: gated_by_def forwards_forward not_forwards_same)

lemma level_order: "DebugLevel < InfoLevel \<and> InfoLevel < ErrorLevel \<and> ErrorLevel < SevereLevel"
  by (simp add: DebugLevel_def InfoLevel_def ErrorLevel_def SevereLevel_def)

lemma gated_writeDebug: "gated_by (logLevel st \<le> DebugLevel) (writeDebug e v fs) Debug_m st"
  by (rule gated_byI) (simp add: writeDebug_def shallLog_def)

lemma gated_writeInfo: "gated_by (logLevel st \<le> InfoLevel) (writeInfo e v fs) Info_m st"
  by (rule gated_byI) (simp add: writeInfo_def shallLog_def)

lemma gated_writeError: "gated_by (logLevel st \<le> ErrorLevel) (writeError e v fs) Error_m st"
  by (rule gated_byI) (simp add: writeError_def shallLog_def)

lemma gated_writeSlow: "gated_by (logLevel st \<le> ErrorLevel) (writeSlow e v fs) Slow_m st"
  by (rule gated_byI) (simp add: writeSlow_def shallLog_def)

lemma gated_writeSevere: "gated_by (logLevel st \<le> SevereLevel) (writeSevere e msg) Severe_m st"
  by (rule gated_byI) (simp add: writeSevere_def shallLog_def)

lemma gated_writeStack: "gated_by (logLevel st \<le> ErrorLevel) (writeStack e msg) Stack_m st"
  by (rule gated_byI) (simp add: writeStack_def shallLog_def)

lemma gated_writeStat:
  "gated_by (disableStat st = 0 \<and> logLevel st \<le> InfoLevel) (writeStat e msg) Stat_m st"
  by (rule gated_byI) (simp add: writeStat_def shallLog_def shallLogStat_def)

lemmas entry_defs =
  Debug_def Debugf_def Debugv_def Debugw_def Info_def Infof_def Infov_def Infow_def
  Error_def Errorf_def Errorv_def Errorw_def ErrorStack_def ErrorStackf_def
  Severe_def Severef_def Slow_def Slowf_def Slowv_def Sloww_def Stat_def Statf_def

lemmas write_defs =
  writeDebug_def writeInfo_def writeError_def writeSevere_def writeSlow_def writeStack_def
  writeStat_def Alert_def

lemma gates:
  "gated_by (logLevel st \<le> DebugLevel) (Debug e v) Debug_m st"
  "gated_by (logLevel st \<le> DebugLevel) (Debugf e format v) Debug_m st"
  "gated_by (logLevel st \<le> DebugLevel) (Debugv e x) Debug_m st"
  "gated_by (logLevel st \<le> DebugLevel) (Debugw e msg fs) Debug_m st"
  "gated_by (logLevel st \<le> InfoLevel) (Info e v) Info_m st"
  "gated_by (logLevel st \<le> InfoLevel) (Infof e format v) Info_m st"
  "gated_by (logLevel st \<le> InfoLevel) (Infov e x) Info_m st"
  "gated_by (logLevel st \<le> InfoLevel) (Infow e msg fs) Info_m st"
  "gated_by (logLevel st \<le> ErrorLevel) (Error e v) Error_m st"
  "gated_by (logLevel st \<le> ErrorLevel) (Errorf e format v) Error_m st"
  "gated_by (logLevel st \<le> ErrorLevel) (Errorv e x) Error_m st"
  "gated_by (logLevel st \<le> ErrorLevel) (Errorw e msg fs) Error_m st"
  "gated_by (logLevel st \<le> ErrorLevel) (ErrorStack e v) Stack_m st"
  "gated_by (logLevel st \<le> ErrorLevel) (ErrorStackf e format v) Stack_m st"
  "gated_by (logLevel st \<le> SevereLevel) (Severe e v) Severe_m st"
  "gated_by (logLevel st \<le> SevereLevel) (Severef e format v) Severe_m st"
  "gated_by (logLevel st \<le> ErrorLevel) (Slow e v) Slow_m st"
  "gated_by (logLevel st \<le> ErrorLevel) (Slowf e format v) Slow_m st"
  "gated_by (logLevel st \<le> ErrorLevel) (Slowv e x) Slow_m st"
  "gated_by (logLevel st \<le> ErrorLevel) (Sloww e msg fs) Slow_m st"
  "gated_by (disableStat st = 0 \<and> logLevel st \<le> InfoLevel) (Stat e v) Stat_m st"
  "gated_by (disableStat st = 0 \<and> logLevel st \<le> InfoLevel) (Statf e format v) Stat_m st"
  unfolding entry_defs
  by (rule gated_writeDebug gated_writeInfo gated_writeError gated_writeStack gated_writeSevere
      gated_writeSlow gated_writeStat)+

lemma calls_writeDebug:
  "calls (writeDebug e v fs st) =
     calls st @ (if shallLog DebugLevel st then [with_caller e st Debug_m v fs] else [])"
  by (simp add: writeDebug_def calls_forward addCaller_eq with_caller_def)

lemma calls_writeInfo:
  "calls (writeInfo e v fs st) =
     calls st @ (if shallLog InfoLevel st then [with_caller e st Info_m v fs] else [])"
  by (simp add: writeInfo_def calls_forward addCaller_eq with_caller_def)

lemma calls_writeError:
  "calls (writeError e v fs st) =
     calls st @ (if shallLog ErrorLevel st then [with_caller e st Error_m v fs] else [])"
  by (simp add: writeError_def calls_forward addCaller_eq with_caller_def)

lemma calls_writeSlow:
  "calls (writeSlow e v fs st) =
     calls st @ (if shallLog ErrorLevel st then [with_caller e st Slow_m v fs] else [])"
  by (simp add: writeSlow_def calls_forward addCaller_eq with_caller_def)

lemma calls_writeStat:
  "calls (writeStat e msg st) =
     calls st @ (if shallLogStat st \<and> shallLog InfoLevel st
                 then [with_caller e st Stat_m (GString msg) []] else [])"
  by (simp add: writeStat_def calls_forward addCaller_eq with_caller_def)

lemma calls_writeSevere:
  "calls (writeSevere e msg st) =
     calls st @ (if shallLog SevereLevel st
                 then [\<lparr>cwriter = fst (getWriter st), cmethod = Severe_m,
                        cval = GString (msg @ [CHR 0x0A] @ debug_Stack e), cfields = []\<rparr>]
                 else [])"
  by (simp add: writeSevere_def calls_forward Sprintf_s_nl_s_def)

lemma calls_writeStack:
  "calls (writeStack e msg st) =
     calls st @ (if shallLog ErrorLevel st
                 then [\<lparr>cwriter = fst (getWriter st), cmethod = Stack_m,
                        cval = GString (msg @ [CHR 0x0A] @ debug_Stack e), cfields = []\<rparr>]
                 else [])"
  by (simp add: writeStack_def calls_forward Sprintf_s_nl_s_def)

lemma calls_Alert:
  "calls (Alert e v st) =
     calls st @ [\<lparr>cwriter = fst (getWriter st), cmethod = Alert_m, cval = GString v, cfields = []\<rparr>]"
  by (simp add: Alert_def calls_forward)

subsection \<open>The level gate\<close>

text \<open>
  C1. The thresholds are ordered Debug < Info < Error < Severe. Each leveled write entry
  point forwards one record to the current backend if and only if the configured
  threshold is at most the severity of the entry point: Debug, Debugf, Debugv and Debugw
  at Debug; the Info variants at Info; the Error variants, ErrorStack and ErrorStackf
  among them, at Error; Severe and Severef at Severe. Stat and Statf forward if and only
  if stat logging is enabled and the threshold is at most Info. A call that does not pass
  leaves the state unchanged, so it forwards nothing to any backend.
\<close>

theorem level_gate:
  "DebugLevel < InfoLevel \<and> InfoLevel < ErrorLevel \<and> ErrorLevel < SevereLevel \<and>
   gated_by (logLevel st \<le> DebugLevel) (Debug e v) Debug_m st \<and>
   gated_by (logLevel st \<le> DebugLevel) (Debugf e format v) Debug_m st \<and>
   gated_by (logLevel st \<le> DebugLevel) (Debugv e x) Debug_m st \<and>
   gated_by (logLevel st \<le> DebugLevel) (Debugw e msg fs) Debug_m st \<and>
   gated_by (logLevel st \<le> InfoLevel) (Info e v) Info_m st \<and>
   gated_by (logLevel st \<le> InfoLevel) (Infof e format v) Info_m st \<and>
   gated_by (logLevel st \<le> InfoLevel) (Infov e x) Info_m st \<and>
   gated_by (logLevel st \<le> InfoLevel) (Infow e msg fs) Info_m st \<and>
   gated_by (logLevel st \<le> ErrorLevel) (Error e v) Error_m st \<and>
   gated_by (logLevel st \<le> ErrorLevel) (Errorf e format v) Error_m st \<and>
   gated_by (logLevel st \<le> ErrorLevel) (Errorv e x) Error_m st \<and>
   gated_by (logLevel st \<le> ErrorLevel) (Errorw e msg fs) Error_m st \<and>
   gated_by (logLevel st \<le> ErrorLevel) (ErrorStack e v) Stack_m st \<and>
   gated_by (logLevel st \<le> ErrorLevel) (ErrorStackf e format v) Stack_m st \<and>
   gated_by (logLevel st \<le> SevereLevel) (Severe e v) Severe_m st \<and>
   gated_by (logLevel st \<le> SevereLevel) (Severef e format v) Severe_m st \<and>
   gated_by (disableStat st = 0 \<and> logLevel st \<le> InfoLevel) (Stat e v) Stat_m st \<and>
   gated_by (disableStat st = 0 \<and> logLevel st \<le> InfoLevel) (Statf e format v) Stat_m st"
  by (intro conjI gates) (simp_all add: level_order)

text \<open>
  C10. The slow-log entry points Slow, Slowf, Slowv and Sloww are gated at the Error
  threshold: a slow record is forwarded to the current backend if and only if the
  configured threshold is at most ErrorLevel. With the level set to severe they forward
  nothing and leave the state unchanged; with the level set to error they forward.
\<close>

theorem slow_gate:
  "gated_by (logLevel st \<le> ErrorLevel) (Slow e v) Slow_m st \<and>
   gated_by (logLevel st \<le> ErrorLevel) (Slowf e format v) Slow_m st \<and>
   gated_by (logLevel st \<le> ErrorLevel) (Slowv e x) Slow_m st \<and>
   gated_by (logLevel st \<le> ErrorLevel) (Sloww e msg fs) Slow_m st \<and>
   InfoLevel < ErrorLevel \<and> ErrorLevel < SevereLevel \<and>
   Slow e v (SetLevel SevereLevel st) = SetLevel SevereLevel st \<and>
   Slowf e format v (SetLevel SevereLevel st) = SetLevel SevereLevel st \<and>
   Slowv e x (SetLevel SevereLevel st) = SetLevel SevereLevel st \<and>
   Sloww e msg fs (SetLevel SevereLevel st) = SetLevel SevereLevel st \<and>
   forwards (SetLevel ErrorLevel st) (Slow e v (SetLevel ErrorLevel st)) Slow_m \<and>
   forwards (SetLevel ErrorLevel st) (Slowf e format v (SetLevel ErrorLevel st)) Slow_m \<and>
   forwards (SetLevel ErrorLevel st) (Slowv e x (SetLevel ErrorLevel st)) Slow_m \<and>
   forwards (SetLevel ErrorLevel st) (Sloww e msg fs (SetLevel ErrorLevel st)) Slow_m"
proof -
  have g: "gated_by (logLevel s \<le> ErrorLevel) (writeSlow e y gs) Slow_m s" for s y gs
    by (rule gated_writeSlow)
  have off: "writeSlow e y gs (SetLevel SevereLevel st) = SetLevel SevereLevel st" for y gs
    by (simp add: writeSlow_def shallLog_def SetLevel_def ErrorLevel_def SevereLevel_def)
  have on: "forwards (SetLevel ErrorLevel st) (writeSlow e y gs (SetLevel ErrorLevel st)) Slow_m"
    for y gs
    using g [of "SetLevel ErrorLevel st" y gs] by (simp add: gated_by_def SetLevel_def)
  show ?thesis
    unfolding Slow_def Slowf_def Slowv_def Sloww_def
    by (intro conjI g off on) (simp_all add: level_order)
qed

text \<open>
  C3, as amended. Alert does not consult the level gate: in every state, whatever the
  threshold, it forwards exactly one record to the current backend, and it neither reads
  nor changes the threshold (it commutes with SetLevel). Every other severity entry point
  consults the gate: it forwards if and only if the threshold is at most its severity
  (and, for Stat and Statf, stat logging is enabled).
\<close>

theorem alert_ungated:
  "forwards st (Alert e a st) Alert_m \<and>
   Alert e a (SetLevel level st) = SetLevel level (Alert e a st) \<and>
   calls (Alert e a st) =
     calls st @ [\<lparr>cwriter = fst (getWriter st), cmethod = Alert_m, cval = GString a, cfields = []\<rparr>] \<and>
   gated_by (logLevel st \<le> DebugLevel) (Debug e v) Debug_m st \<and>
   gated_by (logLevel st \<le> DebugLevel) (Debugf e format v) Debug_m st \<and>
   gated_by (logLevel st \<le> DebugLevel) (Debugv e x) Debug_m st \<and>
   gated_by (logLevel st \<le> DebugLevel) (Debugw e msg fs) Debug_m st \<and>
   gated_by (logLevel st \<le> InfoLevel) (Info e v) Info_m st \<and>
   gated_by (logLevel st \<le> InfoLevel) (Infof e format v) Info_m st \<and>
   gated_by (logLevel st \<le> InfoLevel) (Infov e x) Info_m st \<and>
   gated_by (logLevel st \<le> InfoLevel) (Infow e msg fs) Info_m st \<and>
   gated_by (logLevel st \<le> ErrorLevel) (Error e v) Error_m st \<and>
   gated_by (logLevel st \<le> ErrorLevel) (Errorf e format v) Error_m st \<and>
   gated_by (logLevel st \<le> ErrorLevel) (Errorv e x) Error_m st \<and>
   gated_by (logLevel st \<le> ErrorLevel) (Errorw e msg fs) Error_m st \<and>
   gated_by (logLevel st \<le> ErrorLevel) (ErrorStack e v) Stack_m st \<and>
   gated_by (logLevel st \<le> ErrorLevel) (ErrorStackf e format v) Stack_m st \<and>
   gated_by (logLevel st \<le> SevereLevel) (Severe e v) Severe_m st \<and>
   gated_by (logLevel st \<le> SevereLevel) (Severef e format v) Severe_m st \<and>
   gated_by (logLevel st \<le> ErrorLevel) (Slow e v) Slow_m st \<and>
   gated_by (logLevel st \<le> ErrorLevel) (Slowf e format v) Slow_m st \<and>
   gated_by (logLevel st \<le> ErrorLevel) (Slowv e x) Slow_m st \<and>
   gated_by (logLevel st \<le> ErrorLevel) (Sloww e msg fs) Slow_m st \<and>
   gated_by (disableStat st = 0 \<and> logLevel st \<le> InfoLevel) (Stat e v) Stat_m st \<and>
   gated_by (disableStat st = 0 \<and> logLevel st \<le> InfoLevel) (Statf e format v) Stat_m st"
proof -
  have "forwards st (Alert e a st) Alert_m"
    by (simp add: calls_Alert forwards_def)
  moreover have "Alert e a (SetLevel level st) = SetLevel level (Alert e a st)"
    by (simp add: Alert_def SetLevel_def getWriter_eq invoke_def split: option.splits)
  ultimately show ?thesis
    by (intro conjI gates calls_Alert)
qed

text \<open>
  C3, as stated, fails. With the threshold at Severe the gates of Debug, Info and Error are
  closed, and with the threshold one above Severe the gates of all four severities are
  closed; in both states Alert forwards its record to the console writer.
\<close>

theorem alert_gate_counterexample:
  "\<not> shallLog DebugLevel (SetLevel SevereLevel init_state) \<and>
   \<not> shallLog InfoLevel (SetLevel SevereLevel init_state) \<and>
   \<not> shallLog ErrorLevel (SetLevel SevereLevel init_state) \<and>
   forwards (SetLevel SevereLevel init_state)
     (Alert env0 ''x'' (SetLevel SevereLevel init_state)) Alert_m \<and>
   \<not> shallLog DebugLevel (SetLevel (SevereLevel + 1) init_state) \<and>
   \<not> shallLog InfoLevel (SetLevel (SevereLevel + 1) init_state) \<and>
   \<not> shallLog ErrorLevel (SetLevel (SevereLevel + 1) init_state) \<and>
   \<not> shallLog SevereLevel (SetLevel (SevereLevel + 1) init_state) \<and>
   forwards (SetLevel (SevereLevel + 1) init_state)
     (Alert env0 ''x'' (SetLevel (SevereLevel + 1) init_state)) Alert_m"
  by (simp add: shallLog_def SetLevel_def DebugLevel_def InfoLevel_def ErrorLevel_def
      SevereLevel_def forwards_def calls_Alert word_le_nat_alt)

subsection \<open>What is forwarded\<close>

text \<open>
  C8, as amended. The caller depth is the constant 4. Every call of Debug, Debugf, Debugv,
  Debugw, Info, Infof, Infov, Infow, Error, Errorf, Errorv, Errorw, Slow, Slowf, Slowv,
  Sloww, Stat or Statf that passes its gate makes exactly one invocation on the current
  backend, whose fields are the fields of the caller in their order followed by exactly
  one caller field, the result of \<open>getCaller\<close> at the caller depth; a call that does not
  pass makes none. Every call of Severe, Severef, ErrorStack or ErrorStackf that passes its
  gate makes exactly one invocation on the current backend as well, without any field.
\<close>

theorem caller_field_appended:
  "callerDepth = 4 \<and>
   calls (Debug e v st) =
     calls st @ (if shallLog DebugLevel st
                 then [with_caller e st Debug_m (GString (fmt_Sprint e v)) []] else []) \<and>
   calls (Debugf e format v st) =
     calls st @ (if shallLog DebugLevel st
                 then [with_caller e st Debug_m (GString (fmt_Sprintf e format v)) []] else []) \<and>
   calls (Debugv e x st) =
     calls st @ (if shallLog DebugLevel st then [with_caller e st Debug_m x []] else []) \<and>
   calls (Debugw e msg fs st) =
     calls st @ (if shallLog DebugLevel st then [with_caller e st Debug_m (GString msg) fs] else []) \<and>
   calls (Info e v st) =
     calls st @ (if shallLog InfoLevel st
                 then [with_caller e st Info_m (GString (fmt_Sprint e v)) []] else []) \<and>
   calls (Infof e format v st) =
     calls st @ (if shallLog InfoLevel st
                 then [with_caller e st Info_m (GString (fmt_Sprintf e format v)) []] else []) \<and>
   calls (Infov e x st) =
     calls st @ (if shallLog InfoLevel st then [with_caller e st Info_m x []] else []) \<and>
   calls (Infow e msg fs st) =
     calls st @ (if shallLog InfoLevel st then [with_caller e st Info_m (GString msg) fs] else []) \<and>
   calls (Error e v st) =
     calls st @ (if shallLog ErrorLevel st
                 then [with_caller e st Error_m (GString (fmt_Sprint e v)) []] else []) \<and>
   calls (Errorf e format v st) =
     calls st @ (if shallLog ErrorLevel st
                 then [with_caller e st Error_m (GString (fmt_Errorf e format v)) []] else []) \<and>
   calls (Errorv e x st) =
     calls st @ (if shallLog ErrorLevel st then [with_caller e st Error_m x []] else []) \<and>
   calls (Errorw e msg fs st) =
     calls st @ (if shallLog ErrorLevel st then [with_caller e st Error_m (GString msg) fs] else []) \<and>
   calls (Slow e v st) =
     calls st @ (if shallLog ErrorLevel st
                 then [with_caller e st Slow_m (GString (fmt_Sprint e v)) []] else []) \<and>
   calls (Slowf e format v st) =
     calls st @ (if shallLog ErrorLevel st
                 then [with_caller e st Slow_m (GString (fmt_Sprintf e format v)) []] else []) \<and>
   calls (Slowv e x st) =
     calls st @ (if shallLog ErrorLevel st then [with_caller e st Slow_m x []] else []) \<and>
   calls (Sloww e msg fs st) =
     calls st @ (if shallLog ErrorLevel st then [with_caller e st Slow_m (GString msg) fs] else []) \<and>
   calls (Stat e v st) =
     calls st @ (if shallLogStat st \<and> shallLog InfoLevel st
                 then [with_caller e st Stat_m (GString (fmt_Sprint e v)) []] else []) \<and>
   calls (Statf e format v st) =
     calls st @ (if shallLogStat st \<and> shallLog InfoLevel st
                 then [with_caller e st Stat_m (GString (fmt_Sprintf e format v)) []] else []) \<and>
   calls (Severe e v st) =
     calls st @ (if shallLog SevereLevel st
                 then [\<lparr>cwriter = fst (getWriter st), cmethod = Severe_m,
                        cval = GString (fmt_Sprint e v @ [CHR 0x0A] @ debug_Stack e),
                        cfields = []\<rparr>]
                 else []) \<and>
   calls (Severef e format v st) =
     calls st @ (if shallLog SevereLevel st
                 then [\<lparr>cwriter = fst (getWriter st), cmethod = Severe_m,
                        cval = GString (fmt_Sprintf e format v @ [CHR 0x0A] @ debug_Stack e),
                        cfields = []\<rparr>]
                 else []) \<and>
   calls (ErrorStack e v st) =
     calls st @ (if shallLog ErrorLevel st
                 then [\<lparr>cwriter = fst (getWriter st), cmethod = Stack_m,
                        cval = GString (fmt_Sprint e v @ [CHR 0x0A] @ debug_Stack e),
                        cfields = []\<rparr>]
                 else []) \<and>
   calls (ErrorStackf e format v st) =
     calls st @ (if shallLog ErrorLevel st
                 then [\<lparr>cwriter = fst (getWriter st), cmethod = Stack_m,
                        cval = GString (fmt_Sprintf e format v @ [CHR 0x0A] @ debug_Stack e),
                        cfields = []\<rparr>]
                 else [])"
  unfolding entry_defs
  by (intro conjI calls_writeDebug calls_writeInfo calls_writeError calls_writeSlow
      calls_writeStat calls_writeSevere calls_writeStack) (simp add: callerDepth_def)

text \<open>
  C8, as stated, fails for the entry points that forward without fields. In the initial
  state the Severe gate is open, and Severe forwards one record to the console writer
  that carries no field at all, so no caller field.
\<close>

theorem severe_no_caller_counterexample:
  "shallLog SevereLevel init_state \<and>
   calls (Severe env0 [GString ''x''] init_state) =
     [\<lparr>cwriter = consoleWriter, cmethod = Severe_m,
       cval = GString (''x'' @ [CHR 0x0A] @ ''goroutine 1 [running]:''), cfields = []\<rparr>]"
  by (simp add: Severe_def calls_writeSevere shallLog_def init_simps getWriter_eq env0_def)

text \<open>
  C9. Every call of Severe or Severef that passes the Severe gate, and every call of
  ErrorStack or ErrorStackf that passes the Error gate, forwards one record whose message
  is the formatted primary message, a newline, and the stack trace captured by
  \<open>debug.Stack\<close>; a call that does not pass forwards nothing.
\<close>

theorem stack_trace_appended:
  "calls (Severe e v st) =
     calls st @ (if shallLog SevereLevel st
                 then [\<lparr>cwriter = fst (getWriter st), cmethod = Severe_m,
                        cval = GString (fmt_Sprint e v @ [CHR 0x0A] @ debug_Stack e),
                        cfields = []\<rparr>]
                 else []) \<and>
   calls (Severef e format v st) =
     calls st @ (if shallLog SevereLevel st
                 then [\<lparr>cwriter = fst (getWriter st), cmethod = Severe_m,
                        cval = GString (fmt_Sprintf e format v @ [CHR 0x0A] @ debug_Stack e),
                        cfields = []\<rparr>]
                 else []) \<and>
   calls (ErrorStack e v st) =
     calls st @ (if shallLog ErrorLevel st
                 then [\<lparr>cwriter = fst (getWriter st), cmethod = Stack_m,
                        cval = GString (fmt_Sprint e v @ [CHR 0x0A] @ debug_Stack e),
                        cfields = []\<rparr>]
                 else []) \<and>
   calls (ErrorStackf e format v st) =
     calls st @ (if shallLog ErrorLevel st
                 then [\<lparr>cwriter = fst (getWriter st), cmethod = Stack_m,
                        cval = GString (fmt_Sprintf e format v @ [CHR 0x0A] @ debug_Stack e),
                        cfields = []\<rparr>]
                 else [])"
  unfolding Severe_def Severef_def ErrorStack_def ErrorStackf_def
  by (intro conjI calls_writeSevere calls_writeStack)

subsection \<open>Auxiliary facts: setup\<close>

lemma SetWriter_frame:
  "inits (SetWriter w st) = inits st" "setupOnce (SetWriter w st) = setupOnce st"
  "disableLog (SetWriter w st) = disableLog st" "written (SetWriter w st) = written st"
  "calls (SetWriter w st) = calls st" "logLevel (SetWriter w st) = logLevel st"
  "opened (SetWriter w st) = opened st"
  by (simp_all add: SetWriter_def)

lemma createOutput_cases:
  "(\<exists>err. createOutput e p st = (Inl err, st) \<and> (p = [] \<longrightarrow> err = ErrLogPathNotSet)) \<or>
   (\<exists>out. p \<noteq> [] \<and> createOutput e p st = (Inr out, st\<lparr>opened := opened st @ [p]\<rparr>))"
  by (cases "NewLogger_error e p") (simp_all add: createOutput_def NewLogger_def)

lemma setupWithFiles_cases:
  "(\<exists>err. setupWithFiles e c st = (Some err, st) \<and> (Path c = [] \<longrightarrow> err = ErrLogPathNotSet)) \<or>
   (\<exists>w. Path c \<noteq> [] \<and>
        setupWithFiles e c st = (None, SetWriter (Some w) (st\<lparr>opened := opened st @ [Path c]\<rparr>)))"
  using createOutput_cases [of e "Path c" st]
  by (auto simp add: setupWithFiles_def newFileWriter_def)

lemma setupWithFiles_frame:
  "inits (snd (setupWithFiles e c st)) = inits st \<and>
   setupOnce (snd (setupWithFiles e c st)) = setupOnce st \<and>
   disableLog (snd (setupWithFiles e c st)) = disableLog st \<and>
   written (snd (setupWithFiles e c st)) = written st \<and>
   calls (snd (setupWithFiles e c st)) = calls st"
  using setupWithFiles_cases [of e c st] by (auto simp add: SetWriter_frame)

lemma setupWithVolume_frame:
  "inits (snd (setupWithVolume e c st)) = inits st \<and>
   setupOnce (snd (setupWithVolume e c st)) = setupOnce st \<and>
   disableLog (snd (setupWithVolume e c st)) = disableLog st \<and>
   written (snd (setupWithVolume e c st)) = written st \<and>
   calls (snd (setupWithVolume e c st)) = calls st"
  by (simp add: setupWithVolume_def setupWithFiles_frame)

lemma setup_body_frame:
  "inits (snd (setup_body e c st)) = Suc (inits st) \<and>
   setupOnce (snd (setup_body e c st)) = setupOnce st \<and>
   disableLog (snd (setup_body e c st)) = disableLog st \<and>
   written (snd (setup_body e c st)) = written st \<and>
   calls (snd (setup_body e c st)) = calls st"
  by (simp add: setup_body_def Let_def setupWithFiles_frame setupWithVolume_frame
      setupWithConsole_def SetWriter_frame setupLogLevel_def SetLevel_def)

lemma SetUp_done: "setupOnce st \<Longrightarrow> SetUp e c st = (None, st)"
  by (simp add: SetUp_def)

lemma SetUp_first:
  "\<not> setupOnce st \<Longrightarrow>
   SetUp e c st = (fst (setup_body e c st), (snd (setup_body e c st))\<lparr>setupOnce := True\<rparr>)"
  by (simp add: SetUp_def split: prod.splits)

lemma SetUp_frame:
  "setupOnce (snd (SetUp e c st)) \<and>
   inits (snd (SetUp e c st)) = (if setupOnce st then inits st else Suc (inits st)) \<and>
   disableLog (snd (SetUp e c st)) = disableLog st \<and>
   written (snd (SetUp e c st)) = written st \<and>
   calls (snd (SetUp e c st)) = calls st"
  using setup_body_frame [of e c st]
  by (cases "setup_body e c st") (simp add: SetUp_def)



lemma modes_distinct: "fileMode \<noteq> volumeMode"
  by (simp add: fileMode_def volumeMode_def)

lemma setupWithFiles_Path:
  "Path c = Path c' \<Longrightarrow> setupWithFiles e c st = setupWithFiles e c' st"
  by (simp add: setupWithFiles_def newFileWriter_def)

lemma setupWithFiles_failure:
  "fst (setupWithFiles e c st) \<noteq> None \<Longrightarrow> snd (setupWithFiles e c st) = st"
  using setupWithFiles_cases [of e c st] by auto

lemma setupWithFiles_empty:
  "Path c = [] \<Longrightarrow> setupWithFiles e c st = (Some ErrLogPathNotSet, st)"
  using setupWithFiles_cases [of e c st] by auto

lemma setup_body_eq:
  "setup_body e c st =
     (if Mode c = fileMode then setupWithFiles e c (prepared c st)
      else if Mode c = volumeMode then setupWithVolume e c (prepared c st)
      else (None, setupWithConsole (prepared c st)))"
  by (simp add: setup_body_def prepared_def Let_def)

lemma writer_prepared: "writer (prepared c st) = writer st"
  by (simp add: prepared_def Let_def setupLogLevel_def SetLevel_def)

lemma prepared_cong:
  "Level c = Level c' \<Longrightarrow> TimeFormat c = TimeFormat c' \<Longrightarrow> Encoding c = Encoding c' \<Longrightarrow>
   prepared c st = prepared c' st"
  by (simp add: prepared_def Let_def setupLogLevel_def)

lemma setup_body_failure:
  "fst (setup_body e c st) \<noteq> None \<Longrightarrow> writer (snd (setup_body e c st)) = writer st"
  using setupWithFiles_failure [of e c "prepared c st"]
    setupWithFiles_failure [of e "c\<lparr>Path := path_Join e [Path c, ServiceName c, sysx_Hostname e]\<rparr>" "prepared c st"]
  by (simp add: setup_body_eq setupWithVolume_def writer_prepared split: if_splits)

subsection \<open>Setup\<close>


text \<open>
  C5, as amended. A call of SetUp that runs the initialization (the flag of the one-shot
  gate is not yet set) returns ErrLogPathNotSet in file mode with an empty Path, and
  ErrLogServiceNameNotSet in volume mode with an empty ServiceName. In any state, SetUp in
  volume mode with a non-empty ServiceName does what file mode does with the path
  \<open>path.Join(Path, ServiceName, hostname)\<close>; and in any state, whenever SetUp returns an
  error, the error is the result of the call and the writer in the holder is the one that
  was there before.
\<close>

theorem setup_errors:
  "(\<not> setupOnce st \<and> Mode c = fileMode \<and> Path c = [] \<longrightarrow>
      fst (SetUp e c st) = Some ErrLogPathNotSet) \<and>
   (\<not> setupOnce st \<and> Mode c = volumeMode \<and> ServiceName c = [] \<longrightarrow>
      fst (SetUp e c st) = Some ErrLogServiceNameNotSet) \<and>
   (Mode c = volumeMode \<and> ServiceName c \<noteq> [] \<longrightarrow>
      SetUp e c st =
        SetUp e (c\<lparr>Mode := fileMode,
                   Path := path_Join e [Path c, ServiceName c, sysx_Hostname e]\<rparr>) st) \<and>
   (fst (SetUp e c st) \<noteq> None \<longrightarrow> writer (snd (SetUp e c st)) = writer st)"
proof -
  let ?c' = "c\<lparr>Mode := fileMode, Path := path_Join e [Path c, ServiceName c, sysx_Hostname e]\<rparr>"
  have fm: "\<not> setupOnce st \<and> Mode c = fileMode \<and> Path c = [] \<longrightarrow>
      fst (SetUp e c st) = Some ErrLogPathNotSet"
    by (simp add: SetUp_first setup_body_eq setupWithFiles_empty)
  have vol: "\<not> setupOnce st \<and> Mode c = volumeMode \<and> ServiceName c = [] \<longrightarrow>
      fst (SetUp e c st) = Some ErrLogServiceNameNotSet"
    using modes_distinct by (simp add: SetUp_first setup_body_eq setupWithVolume_def)
  have p: "prepared ?c' st = prepared c st"
    by (rule prepared_cong) simp_all
  have f: "setupWithFiles e ?c' (prepared c st) =
      setupWithFiles e (c\<lparr>Path := path_Join e [Path c, ServiceName c, sysx_Hostname e]\<rparr>)
        (prepared c st)"
    by (rule setupWithFiles_Path) simp
  have "Mode c = volumeMode \<and> ServiceName c \<noteq> [] \<longrightarrow> setup_body e c st = setup_body e ?c' st"
    using modes_distinct by (simp add: setup_body_eq setupWithVolume_def p f)
  then have join: "Mode c = volumeMode \<and> ServiceName c \<noteq> [] \<longrightarrow> SetUp e c st = SetUp e ?c' st"
    by (simp add: SetUp_def)
  have fail: "fst (SetUp e c st) \<noteq> None \<longrightarrow> writer (snd (SetUp e c st)) = writer st"
  proof (cases "setupOnce st")
    case True
    then show ?thesis by (simp add: SetUp_done)
  next
    case False
    then show ?thesis
      using setup_body_failure [of e c st] by (simp add: SetUp_first)
  qed
  from fm vol join fail show ?thesis by blast
qed

theorem setup_errors_witness:
  "\<not> setupOnce init_state \<and>
   fst (SetUp env0 \<lparr>ServiceName = [], Mode = ''file'', Encoding = ''json'', TimeFormat = [],
                    Path = [], Level = ''info''\<rparr> init_state) = Some ErrLogPathNotSet \<and>
   writer (snd (SetUp env0 \<lparr>ServiceName = [], Mode = ''file'', Encoding = ''json'',
                    TimeFormat = [], Path = [], Level = ''info''\<rparr> init_state)) = None \<and>
   fst (SetUp env0 \<lparr>ServiceName = [], Mode = ''volume'', Encoding = ''json'', TimeFormat = [],
                    Path = ''logs'', Level = ''info''\<rparr> init_state) = Some ErrLogServiceNameNotSet \<and>
   SetUp env0 \<lparr>ServiceName = ''svc'', Mode = ''volume'', Encoding = ''json'', TimeFormat = [],
               Path = ''logs'', Level = ''info''\<rparr> init_state =
     SetUp env0 \<lparr>ServiceName = ''svc'', Mode = ''file'', Encoding = ''json'', TimeFormat = [],
                 Path = ''logs/svc/host1'', Level = ''info''\<rparr> init_state"
  using
    setup_errors [of init_state "\<lparr>ServiceName = [], Mode = ''file'', Encoding = ''json'',
      TimeFormat = [], Path = [], Level = ''info''\<rparr>" env0]
    setup_errors [of init_state "\<lparr>ServiceName = [], Mode = ''volume'', Encoding = ''json'',
      TimeFormat = [], Path = ''logs'', Level = ''info''\<rparr>" env0]
    setup_errors [of init_state "\<lparr>ServiceName = ''svc'', Mode = ''volume'', Encoding = ''json'',
      TimeFormat = [], Path = ''logs'', Level = ''info''\<rparr>" env0]
  by (simp add: init_simps fileMode_def volumeMode_def env0_def)

text \<open>
  C5, as stated, fails for a call of SetUp after the first. Once a SetUp in console mode has
  run, a SetUp in file mode with an empty Path, and one in volume mode with an empty
  ServiceName, find the flag of the one-shot gate set and return nil.
\<close>

theorem setup_errors_counterexample:
  "fst (SetUp env0
          \<lparr>ServiceName = [], Mode = fileMode, Encoding = ''json'', TimeFormat = [],
            Path = [], Level = ''info''\<rparr>
          (snd (SetUp env0
                  \<lparr>ServiceName = [], Mode = ''console'', Encoding = ''json'', TimeFormat = [],
                    Path = [], Level = ''info''\<rparr> init_state))) = None \<and>
   fst (SetUp env0
          \<lparr>ServiceName = [], Mode = volumeMode, Encoding = ''json'', TimeFormat = [],
            Path = ''logs'', Level = ''info''\<rparr>
          (snd (SetUp env0
                  \<lparr>ServiceName = [], Mode = ''console'', Encoding = ''json'', TimeFormat = [],
                    Path = [], Level = ''info''\<rparr> init_state))) = None"
proof -
  have "setupOnce (snd (SetUp env0
      \<lparr>ServiceName = [], Mode = ''console'', Encoding = ''json'', TimeFormat = [],
        Path = [], Level = ''info''\<rparr> init_state))"
    using SetUp_frame by blast
  then show ?thesis
    by (simp add: SetUp_done)
qed

subsection \<open>Auxiliary facts: the disabled state\<close>

lemma Disable_eq: "Disable st = st\<lparr>disableLog := 1, writer := Some nopWriter\<rparr>"
  by (simp add: Disable_def Store_def Let_def)

lemma forward_nop:
  "writer st = Some nopWriter \<Longrightarrow>
   (case getWriter st of (w, st') \<Rightarrow> invoke e w m v fs st') =
     st\<lparr>calls := calls st @ [\<lparr>cwriter = nopWriter, cmethod = m, cval = v, cfields = fs\<rparr>]\<rparr>"
  by (simp add: getWriter_eq invoke_def Writer_write_def)

lemma setupWithFiles_disabled:
  "disableLog st \<noteq> 0 \<Longrightarrow> writer (snd (setupWithFiles e c st)) = writer st"
  using setupWithFiles_cases [of e c st] by (auto simp add: SetWriter_def)

lemma setup_body_disabled:
  "disableLog st \<noteq> 0 \<Longrightarrow> writer (snd (setup_body e c st)) = writer st"
  by (simp add: setup_body_def Let_def setupWithFiles_disabled setupWithVolume_def
      setupWithConsole_def SetWriter_def setupLogLevel_def SetLevel_def)

lemma SetUp_disabled:
  "disableLog st \<noteq> 0 \<Longrightarrow> writer (snd (SetUp e c st)) = writer st"
  using setup_body_disabled [of st e c]
  by (cases "setup_body e c st") (simp add: SetUp_def)

lemma step_disabled:
  assumes "writer st = Some nopWriter" and "disableLog st = 1" and "\<not> detaches p"
  shows "writer (step e p st) = Some nopWriter \<and> disableLog (step e p st) = 1 \<and>
         written (step e p st) = written st"
proof (cases p)
  case (OpSetUp c)
  then show ?thesis
    using assms SetUp_frame [of e c st] SetUp_disabled [of st e c] by simp
qed (use assms in \<open>simp_all add: entry_defs write_defs forward_nop Disable_eq DisableStat_def
       SetLevel_def SetWriter_def\<close>)

lemma run_disabled:
  "writer st = Some nopWriter \<Longrightarrow> disableLog st = 1 \<Longrightarrow>
   list_all (\<lambda>x. \<not> detaches (snd x)) xs \<Longrightarrow>
   writer (run xs st) = Some nopWriter \<and> written (run xs st) = written st"
proof (induction xs arbitrary: st)
  case Nil
  then show ?case by simp
next
  case (Cons x xs)
  from Cons.prems have s: "writer (step (fst x) (snd x) st) = Some nopWriter \<and>
      disableLog (step (fst x) (snd x) st) = 1 \<and>
      written (step (fst x) (snd x) st) = written st"
    by (intro step_disabled) simp_all
  with Cons.IH [of "step (fst x) (snd x) st"] Cons.prems show ?case by simp
qed

lemma step_flag: "disableLog st = 1 \<Longrightarrow> disableLog (step e p st) = 1"
proof (cases p)
  case (OpSetUp c)
  then show "disableLog st = 1 \<Longrightarrow> disableLog (step e p st) = 1"
    using SetUp_frame [of e c st] by simp
qed (simp_all add: entry_defs write_defs forward_frame Close_def Reset_def Swap_def
       Disable_eq DisableStat_def SetLevel_def SetWriter_frame split: option.splits)

lemma run_flag: "disableLog st = 1 \<Longrightarrow> disableLog (run xs st) = 1"
  by (induction xs arbitrary: st) (simp_all add: step_flag)

subsection \<open>Disable\<close>

text \<open>
  C4, as amended. Disable installs the no-op writer and sets the disabled flag, writes
  nothing, and is idempotent from any state. After it, over any sequence of calls of the
  facade in which neither Reset nor Close takes the writer out of the holder, the no-op
  writer stays in place and no byte is written, whatever the number of write calls. Over
  any sequence of calls at all the flag stays set, so every later SetWriter is rejected
  and leaves the state as it was.
\<close>

theorem disable_sticky:
  assumes "list_all (\<lambda>x. \<not> detaches (snd x)) xs"
  shows "writer (Disable st) = Some nopWriter \<and> disableLog (Disable st) = 1 \<and>
         written (Disable st) = written st \<and> calls (Disable st) = calls st \<and>
         Disable (Disable st) = Disable st \<and>
         writer (run xs (Disable st)) = Some nopWriter \<and>
         written (run xs (Disable st)) = written st \<and>
         disableLog (run ys (Disable st)) = 1 \<and>
         SetWriter w (run ys (Disable st)) = run ys (Disable st)"
proof -
  have d: "writer (Disable st) = Some nopWriter" "disableLog (Disable st) = 1"
    "written (Disable st) = written st" "calls (Disable st) = calls st"
    "Disable (Disable st) = Disable st"
    by (simp_all add: Disable_eq)
  from d(1,2) assms have r: "writer (run xs (Disable st)) = Some nopWriter \<and>
      written (run xs (Disable st)) = written (Disable st)"
    by (rule run_disabled)
  from d(2) have f: "disableLog (run ys (Disable st)) = 1"
    by (rule run_flag)
  then have "SetWriter w (run ys (Disable st)) = run ys (Disable st)"
    by (simp add: SetWriter_def)
  with d r f show ?thesis by simp
qed

theorem disable_sticky_witness:
  "list_all (\<lambda>x. \<not> detaches (snd x))
     [(env0, OpInfo [GString ''x'']), (env0, OpSetWriter (Some (customWriter 1))),
      (env0, OpSevere [GString ''y''])] \<and>
   writer (run [(env0, OpInfo [GString ''x'']), (env0, OpSetWriter (Some (customWriter 1))),
      (env0, OpSevere [GString ''y''])] (Disable init_state)) = Some nopWriter \<and>
   written (run [(env0, OpInfo [GString ''x'']), (env0, OpSetWriter (Some (customWriter 1))),
      (env0, OpSevere [GString ''y''])] (Disable init_state)) = [] \<and>
   disableLog (run [(env0, OpReset)] (Disable init_state)) = 1"
  using disable_sticky [of "[(env0, OpInfo [GString ''x'']),
      (env0, OpSetWriter (Some (customWriter 1))), (env0, OpSevere [GString ''y''])]"
      init_state "[(env0, OpReset)]"]
  by (simp add: init_simps)

text \<open>
  C4, as stated, fails once the writer has been detached. After Disable and Reset the holder
  is empty; the next Info call finds no writer, installs a console writer through
  \<open>getWriter\<close>, which does not look at the disabled flag, and forwards its record
  there, where it is written.
\<close>

theorem disable_reset_counterexample:
  "writer (run [(env0, OpReset), (env0, OpInfo [GString ''x''])] (Disable init_state)) =
     Some consoleWriter \<and>
   calls (run [(env0, OpReset), (env0, OpInfo [GString ''x''])] (Disable init_state)) =
     [\<lparr>cwriter = consoleWriter, cmethod = Info_m, cval = GString ''x'',
       cfields = [\<lparr>Key = ''caller'', Value = GString ''svc/main.go:10''\<rparr>]\<rparr>] \<and>
   written (run [(env0, OpReset), (env0, OpInfo [GString ''x''])] (Disable init_state)) = ''line''"
  by (simp add: Disable_eq Reset_def Swap_def Info_def writeInfo_def shallLog_def invoke_def
      getWriter_eq Writer_write_def addCaller_eq callerKey_def init_state_def env0_def)

subsection \<open>Reset\<close>

text \<open>
  C7, as amended. In every state, Reset returns the writer that was installed and leaves
  the holder empty, and it does not touch the one-shot gate: after a SetUp and a Reset,
  SetUp still returns nil and changes nothing. When logging has not been disabled and the
  threshold lets Info pass, SetWriter after Reset installs the given writer, and the
  following Info call makes its one invocation on that writer, so on no other.
\<close>

theorem reset_then_set_writer:
  "Reset st = (writer st, st\<lparr>writer := None\<rparr>) \<and>
   setupOnce (snd (Reset st)) = setupOnce st \<and>
   SetUp eb cb (snd (Reset (snd (SetUp ea ca st)))) =
     (None, snd (Reset (snd (SetUp ea ca st)))) \<and>
   (disableLog st = 0 \<and> shallLog InfoLevel st \<longrightarrow>
      writer (SetWriter (Some w) (snd (Reset st))) = Some w \<and>
      calls (Info e v (SetWriter (Some w) (snd (Reset st)))) =
        calls st @ [\<lparr>cwriter = w, cmethod = Info_m, cval = GString (fmt_Sprint e v),
                     cfields = [\<lparr>Key = callerKey,
                                 Value = GString (getCaller e callerDepth)\<rparr>]\<rparr>])"
proof -
  have r: "Reset s = (writer s, s\<lparr>writer := None\<rparr>)" for s
    by (simp add: Reset_def Swap_def)
  have o: "setupOnce (snd (Reset (snd (SetUp ea ca st))))"
    using SetUp_frame [of ea ca st] by (simp add: r)
  have d: "writer (SetWriter (Some w) (snd (Reset st))) = Some w \<and>
      calls (Info e v (SetWriter (Some w) (snd (Reset st)))) =
        calls st @ [\<lparr>cwriter = w, cmethod = Info_m, cval = GString (fmt_Sprint e v),
                     cfields = [\<lparr>Key = callerKey,
                                 Value = GString (getCaller e callerDepth)\<rparr>]\<rparr>]"
    if enabled: "disableLog st = 0" and pass: "shallLog InfoLevel st"
  proof -
    have w: "SetWriter (Some w) (snd (Reset st)) = st\<lparr>writer := Some w\<rparr>"
      using enabled by (simp add: r SetWriter_def Store_def)
    have "shallLog InfoLevel (st\<lparr>writer := Some w\<rparr>)"
      using pass by (simp add: shallLog_def)
    then have "calls (Info e v (st\<lparr>writer := Some w\<rparr>)) =
        calls st @ [\<lparr>cwriter = w, cmethod = Info_m, cval = GString (fmt_Sprint e v),
                     cfields = [\<lparr>Key = callerKey, Value = GString (getCaller e callerDepth)\<rparr>]\<rparr>]"
      by (simp add: Info_def calls_writeInfo with_caller_def getWriter_eq)
    with w show ?thesis by simp
  qed
  from r [of st] o d show ?thesis
    by (simp add: SetUp_done)
qed

theorem reset_then_set_writer_witness:
  "disableLog (SetWriter (Some consoleWriter) init_state) = 0 \<and>
   shallLog InfoLevel (SetWriter (Some consoleWriter) init_state) \<and>
   Reset (SetWriter (Some consoleWriter) init_state) =
     (Some consoleWriter, (SetWriter (Some consoleWriter) init_state)\<lparr>writer := None\<rparr>) \<and>
   calls (Info env0 [GString ''x'']
            (SetWriter (Some (customWriter 7))
               (snd (Reset (SetWriter (Some consoleWriter) init_state))))) =
     [\<lparr>cwriter = customWriter 7, cmethod = Info_m, cval = GString ''x'',
       cfields = [\<lparr>Key = ''caller'', Value = GString ''svc/main.go:10''\<rparr>]\<rparr>]"
  using reset_then_set_writer [where st = "SetWriter (Some consoleWriter) init_state"
      and w = "customWriter 7" and e = env0 and v = "[GString ''x'']" and ea = env0 and eb = env0
      and ca = "\<lparr>ServiceName = [], Mode = ''console'', Encoding = ''json'', TimeFormat = [],
                 Path = [], Level = ''info''\<rparr>"
      and cb = "\<lparr>ServiceName = [], Mode = ''file'', Encoding = ''plain'', TimeFormat = [],
                 Path = ''logs'', Level = ''debug''\<rparr>"]
  by (simp add: init_simps SetWriter_def Store_def Reset_def Swap_def shallLog_def callerKey_def
      env0_def)

text \<open>
  C7, as stated, fails in the states where Info does not pass or SetWriter does not store.
  With the threshold at Error, Reset, SetWriter with a writer of the caller and Info
  deliver nothing, to no writer. After Disable, SetWriter is rejected, the holder stays
  empty after Reset, and the record of Info goes to a console writer and not to the
  writer of the caller.
\<close>

theorem reset_then_set_writer_counterexample:
  "calls (Info env0 [GString ''x'']
            (SetWriter (Some (customWriter 7))
               (snd (Reset (SetLevel ErrorLevel init_state))))) = [] \<and>
   calls (Info env0 [GString ''x'']
            (SetWriter (Some (customWriter 7)) (snd (Reset (Disable init_state))))) =
     [\<lparr>cwriter = consoleWriter, cmethod = Info_m, cval = GString ''x'',
       cfields = [\<lparr>Key = ''caller'', Value = GString ''svc/main.go:10''\<rparr>]\<rparr>]"
  by (simp add: Info_def calls_writeInfo with_caller_def getWriter_eq shallLog_def SetLevel_def
      SetWriter_def Store_def Reset_def Swap_def Disable_eq InfoLevel_def ErrorLevel_def
      callerKey_def init_state_def env0_def word_le_nat_alt)

subsection \<open>Auxiliary facts: fields\<close>

lemma errStrings_map: "errStrings (map Some ms) acc = Inr (acc @ ms)"
  by (induction ms arbitrary: acc) simp_all

lemma errStrings_nil: "None \<in> set es \<Longrightarrow> errStrings es acc = Inl NilDereference"
  by (induction es arbitrary: acc) (auto split: option.splits)

lemma durStrings_map: "durStrings ds acc = acc @ map Duration_String ds"
  by (induction ds arbitrary: acc) simp_all

lemma timeStrings_id: "timeStrings ts acc = acc @ ts"
  by (induction ts arbitrary: acc) simp_all

lemma digit_char_simps:
  "digit_char 0 = CHR ''0''" "digit_char (Suc 0) = CHR ''1''" "digit_char 1 = CHR ''1''"
  "digit_char 2 = CHR ''2''" "digit_char 3 = CHR ''3''" "digit_char 4 = CHR ''4''"
  "digit_char 5 = CHR ''5''" "digit_char 6 = CHR ''6''" "digit_char 7 = CHR ''7''"
  "digit_char 8 = CHR ''8''" "digit_char 9 = CHR ''9''"
  by (simp_all add: digit_char_def char_of_def bit_iff_odd_drop_bit)

lemma fmtInt_loop_0: "fmtInt_loop buf 0 = buf"
  by simp

lemma fmtInt_loop_pos:
  "0 < v \<Longrightarrow> fmtInt_loop buf v = fmtInt_loop (digit_char (v mod 10) # buf) (v div 10)"
  by simp

lemma fmtFrac_loop_pos:
  "0 < n \<Longrightarrow> fmtFrac_loop n buf v prnt =
     (let digit = v mod 10;
          prnt' = (prnt \<or> digit \<noteq> 0);
          buf' = (if prnt' then digit_char digit # buf else buf)
      in fmtFrac_loop (n - 1) buf' (v div 10) prnt')"
  by (cases n) simp_all

lemma Duration_String_1500ms: "Duration_String (1500 * 1000000) = ''1.5s''"
  by (simp add: Duration_String_def Duration_format_def fmtFrac_def fmtInt_def digit_char_simps
      Second_def Millisecond_def Microsecond_def fmtFrac_loop_pos fmtInt_loop_0 fmtInt_loop_pos
      Let_def del: fmtInt_loop.simps)

lemma Field_logx_key:
  "Field_logx key v = Inl NilDereference \<or> (\<exists>x. Field_logx key v = Inr \<lparr>Key = key, Value = x\<rparr>)"
proof (cases v)
  case (GObj n eo so)
  then show ?thesis
    by (cases eo; cases so) (simp_all add: Field_logx_def Error_method_def String_method_def)
next
  case (GErrors es)
  then show ?thesis
    by (cases "errStrings es []") (simp_all add: Field_logx_def Error_method_def String_method_def, metis panic.exhaust)
next
  case (GStringers es)
  then show ?thesis
    by (cases "errStrings es []") (simp_all add: Field_logx_def Error_method_def String_method_def, metis panic.exhaust)
qed (simp_all add: Field_logx_def Error_method_def String_method_def)

text \<open>A nil element in a slice of errors or of Stringers makes \<open>Field\<close> panic.\<close>

lemma Field_logx_nil_element:
  "None \<in> set es \<Longrightarrow> Field_logx key (GErrors es) = Inl NilDereference"
  "None \<in> set es \<Longrightarrow> Field_logx key (GStringers es) = Inl NilDereference"
  by (simp_all add: Field_logx_def Error_method_def String_method_def errStrings_nil)

subsection \<open>Fields\<close>

text \<open>
  C6, as amended. Field normalizes by the first matching rule. An error value becomes its
  message, also when its type implements Stringer as well; a slice of errors none of
  which is nil becomes the slice of their messages, of the same length and in the same
  order (two errors give two messages); a duration becomes its string form, \<open>1.5s\<close> for
  1500 milliseconds; slices of durations and of timestamps become the slices of their
  string forms; a Stringer that is not an error becomes the result of its String method,
  and a slice of Stringers none of which is nil the slice of the results; nil, strings,
  numbers, booleans, string slices and values without methods pass through unchanged.
  Whenever Field returns a field, its key is the one given.
\<close>

theorem field_normalization:
  "Field_logx key (GObj n (Some m) s) = Inr \<lparr>Key = key, Value = GString m\<rparr> \<and>
   Field_logx key (GErrors (map Some ms)) = Inr \<lparr>Key = key, Value = GStrings ms\<rparr> \<and>
   Field_logx key (GErrors [Some m1, Some m2]) = Inr \<lparr>Key = key, Value = GStrings [m1, m2]\<rparr> \<and>
   Field_logx key (GDuration d) = Inr \<lparr>Key = key, Value = GString (Duration_String d)\<rparr> \<and>
   Field_logx key (GDuration (1500 * 1000000)) = Inr \<lparr>Key = key, Value = GString ''1.5s''\<rparr> \<and>
   Field_logx key (GDurations ds) =
     Inr \<lparr>Key = key, Value = GStrings (map Duration_String ds)\<rparr> \<and>
   Field_logx key (GTimes ts) = Inr \<lparr>Key = key, Value = GStrings ts\<rparr> \<and>
   Field_logx key (GObj n None (Some t)) = Inr \<lparr>Key = key, Value = GString t\<rparr> \<and>
   Field_logx key (GTime t) = Inr \<lparr>Key = key, Value = GString t\<rparr> \<and>
   Field_logx key (GStringers (map Some ss)) = Inr \<lparr>Key = key, Value = GStrings ss\<rparr> \<and>
   Field_logx key GNil = Inr \<lparr>Key = key, Value = GNil\<rparr> \<and>
   Field_logx key (GString x) = Inr \<lparr>Key = key, Value = GString x\<rparr> \<and>
   Field_logx key (GInt i) = Inr \<lparr>Key = key, Value = GInt i\<rparr> \<and>
   Field_logx key (GBool b) = Inr \<lparr>Key = key, Value = GBool b\<rparr> \<and>
   Field_logx key (GStrings xs) = Inr \<lparr>Key = key, Value = GStrings xs\<rparr> \<and>
   Field_logx key (GObj n None None) = Inr \<lparr>Key = key, Value = GObj n None None\<rparr> \<and>
   (Field_logx key v = Inl NilDereference \<or>
    (\<exists>x. Field_logx key v = Inr \<lparr>Key = key, Value = x\<rparr>))"
proof -
  have e: "Field_logx key (GErrors (map Some xs)) = Inr \<lparr>Key = key, Value = GStrings xs\<rparr>" for xs
    by (simp add: Field_logx_def Error_method_def String_method_def errStrings_map)
  have e2: "Field_logx key (GErrors [Some m1, Some m2]) = Inr \<lparr>Key = key, Value = GStrings [m1, m2]\<rparr>"
    using e [of "[m1, m2]"] by simp
  have s: "Field_logx key (GStringers (map Some ss)) = Inr \<lparr>Key = key, Value = GStrings ss\<rparr>"
    by (simp add: Field_logx_def Error_method_def String_method_def errStrings_map)
  have d: "Field_logx key (GDuration x) = Inr \<lparr>Key = key, Value = GString (Duration_String x)\<rparr>"
    for x
    by (simp add: Field_logx_def Error_method_def String_method_def)
  have d2: "Field_logx key (GDuration (1500 * 1000000)) = Inr \<lparr>Key = key, Value = GString ''1.5s''\<rparr>"
    by (simp only: d Duration_String_1500ms)
  have rest: "Field_logx key (GObj n (Some m) s) = Inr \<lparr>Key = key, Value = GString m\<rparr>"
    "Field_logx key (GDurations ds) = Inr \<lparr>Key = key, Value = GStrings (map Duration_String ds)\<rparr>"
    "Field_logx key (GTimes ts) = Inr \<lparr>Key = key, Value = GStrings ts\<rparr>"
    "Field_logx key (GObj n None (Some t)) = Inr \<lparr>Key = key, Value = GString t\<rparr>"
    "Field_logx key (GTime t) = Inr \<lparr>Key = key, Value = GString t\<rparr>"
    "Field_logx key GNil = Inr \<lparr>Key = key, Value = GNil\<rparr>"
    "Field_logx key (GString x) = Inr \<lparr>Key = key, Value = GString x\<rparr>"
    "Field_logx key (GInt i) = Inr \<lparr>Key = key, Value = GInt i\<rparr>"
    "Field_logx key (GBool b) = Inr \<lparr>Key = key, Value = GBool b\<rparr>"
    "Field_logx key (GStrings xs) = Inr \<lparr>Key = key, Value = GStrings xs\<rparr>"
    "Field_logx key (GObj n None None) = Inr \<lparr>Key = key, Value = GObj n None None\<rparr>"
    by (simp_all add: Field_logx_def Error_method_def String_method_def durStrings_map timeStrings_id)
  from e e2 s d d2 rest Field_logx_key [of key v] show ?thesis
    by (intro conjI)
qed

text \<open>
  C6, as stated, fails on a slice of errors that holds a nil element: the loop calls
  \<open>Error()\<close> on the nil element, and Field returns no field, so neither a slice of
  messages nor a key.
\<close>

theorem field_nil_element_counterexample:
  "Field_logx ''errs'' (GErrors [Some ''a'', None]) = Inl NilDereference"
  by (simp add: Field_logx_def Error_method_def String_method_def)

end
